theory Spec2Isabelle
  imports Main "HOL-Library.Sublist"
begin

section \<open>JavaScript values used by the dictation services\<close>

text \<open>
  A JavaScript string is a \<^typ>\<open>string\<close>. \<open>String.prototype.includes\<close> is the
  contiguous-substring test; the empty string is included in every string.
\<close>

fun includes_str :: "string \<Rightarrow> string \<Rightarrow> bool" where
  "includes_str [] sub = (sub = [])"
| "includes_str (c # cs) sub = (prefix sub (c # cs) \<or> includes_str cs sub)"

text \<open>
  \<open>toLowerCase\<close>, on the ASCII letters (the only ones the matched phrases contain); every
  other character is left as it is.
\<close>

definition char_toLowerCase :: "char \<Rightarrow> char" where
  "char_toLowerCase c =
     (if 65 \<le> (of_char c :: nat) \<and> (of_char c :: nat) \<le> 90
      then char_of ((of_char c :: nat) + 32) else c)"

definition toLowerCase :: "string \<Rightarrow> string" where
  "toLowerCase s = map char_toLowerCase s"

text \<open>
  An optional string property is truthy when it is present and not empty.
\<close>

fun truthy :: "string option \<Rightarrow> bool" where
  "truthy None = False"
| "truthy (Some s) = (s \<noteq> [])"

text \<open>
  A property of the response body, which is untyped (\<open>any\<close>): a string, or any other
  value. Of a value that is no string the handler can observe whether it is truthy, what
  its own \<open>includes\<close> method answers if it has one (an array has: whether the argument is
  one of its elements; an object, a number and a boolean have none), and what a template
  literal renders it to. Only a string has \<open>toLowerCase\<close>.
\<close>

datatype body_value =
    StringValue string
  | OtherValue bool "(string \<Rightarrow> bool) option" string

fun value_truthy :: "body_value option \<Rightarrow> bool" where
  "value_truthy None = False"
| "value_truthy (Some (StringValue s)) = (s \<noteq> [])"
| "value_truthy (Some (OtherValue is_truthy includes_method rendering)) = is_truthy"

text \<open>\<open>a || b\<close> yields \<open>a\<close> when \<open>a\<close> is truthy and \<open>b\<close> otherwise.\<close>

definition or_js :: "body_value option \<Rightarrow> body_value option \<Rightarrow> body_value option" where
  "or_js a b = (if value_truthy a then a else b)"

text \<open>The \<open>includes\<close> method of a value, if it has one, and its rendering in a template.\<close>

fun value_includes_method :: "body_value \<Rightarrow> (string \<Rightarrow> bool) option" where
  "value_includes_method (StringValue s) = Some (includes_str s)"
| "value_includes_method (OtherValue is_truthy includes_method rendering) = includes_method"

fun value_render :: "body_value \<Rightarrow> string" where
  "value_render (StringValue s) = s"
| "value_render (OtherValue is_truthy includes_method rendering) = rendering"

text \<open>
  What a \<open>catch\<close> clause can receive. An axios error is an \<open>Error\<close> instance with its own
  \<open>message\<close>, a string, and, when the server answered, a \<open>response\<close> with a numeric
  \<open>status\<close> and a body \<open>data\<close>, whose \<open>error\<close> and \<open>message\<close> properties may be absent
  or hold any value. Any other \<open>Error\<close> instance carries its \<open>message\<close>. A thrown value
  that is no \<open>Error\<close> instance is carried as the string \<open>String(value)\<close> renders it to.
\<close>

record response_data =
  data_error :: "body_value option"
  data_message :: "body_value option"

record http_response =
  status :: int
  data :: "response_data option"

datatype thrown =
    AxiosError string "http_response option"
  | PlainError string
  | NonError string

text \<open>
  The \<open>TypeError\<close> (an \<open>Error\<close> instance) that calling a method a value does not have
  raises; the wording of its message is the engine's.
\<close>

definition includes_TypeError :: thrown where
  "includes_TypeError = PlainError ''message.includes is not a function''"

definition toLowerCase_TypeError :: thrown where
  "toLowerCase_TypeError = PlainError ''message.toLowerCase is not a function''"

section \<open>VoiceTranscriptionService.transcribeAudio\<close>

record transcription_outcome =
  out_text :: "string option"
  out_error :: "string option"

definition error_outcome :: "string \<Rightarrow> transcription_outcome" where
  "error_outcome m = \<lparr>out_text = None, out_error = Some m\<rparr>"

text \<open>\<open>error.response?.data?.error\<close> and \<open>error.response?.data?.message\<close>.\<close>

definition response_data_error :: "http_response option \<Rightarrow> body_value option" where
  "response_data_error r =
     (case r of None \<Rightarrow> None
      | Some resp \<Rightarrow> (case data resp of None \<Rightarrow> None | Some d \<Rightarrow> data_error d))"

definition response_data_message :: "http_response option \<Rightarrow> body_value option" where
  "response_data_message r =
     (case r of None \<Rightarrow> None
      | Some resp \<Rightarrow> (case data resp of None \<Rightarrow> None | Some d \<Rightarrow> data_message d))"

text \<open>
  The message of an axios error:
  \<open>error.response?.data?.error || error.response?.data?.message || error.message\<close>.
  It is whatever value the first truthy operand holds, a string or not.
\<close>

definition axios_message :: "string \<Rightarrow> http_response option \<Rightarrow> body_value" where
  "axios_message msg r =
     (case or_js (or_js (response_data_error r) (response_data_message r))
             (Some (StringValue msg)) of
        Some m \<Rightarrow> m
      | None \<Rightarrow> StringValue msg)"

text \<open>The \<open>case 400\<close> arm of the status switch, for a message that is a string.\<close>

definition bad_request_message :: "string \<Rightarrow> string" where
  "bad_request_message message =
     (if includes_str (toLowerCase message) ''insufficient balance'' \<or>
         includes_str (toLowerCase message) ''insufficient credits''
      then ''Insufficient credits for transcription service.''
      else if includes_str (toLowerCase message) ''invalid audio'' \<or>
              includes_str (toLowerCase message) ''invalid format''
      then ''Invalid audio format. Please try recording again.''
      else if includes_str (toLowerCase message) ''exceeds'' \<and>
              includes_str (toLowerCase message) ''limit''
      then message
      else if message \<noteq> [] then message
      else ''Invalid audio format or request data.'')"

text \<open>
  The \<open>switch (status)\<close>; an axios error without a response has no status. The
  \<open>case 400\<close> arm calls \<open>message.toLowerCase()\<close> first, which raises a \<open>TypeError\<close>
  when the message is no string; the default arm renders the message into a template.
\<close>

definition status_message :: "int option \<Rightarrow> body_value \<Rightarrow> thrown + string" where
  "status_message st message =
     (if st = Some 401
      then Inr ''Authentication failed. Please reauthenticate your Cline account''
      else if st = Some 402 then Inr ''Insufficient credits for transcription service.''
      else if st = Some 400
      then (case message of
              StringValue s \<Rightarrow> Inr (bad_request_message s)
            | OtherValue is_truthy includes_method rendering \<Rightarrow> Inl toLowerCase_TypeError)
      else if st = Some 500 then Inr ''Transcription server error. Please try again later.''
      else Inr (''Transcription failed: '' @ value_render message))"

text \<open>
  The branch for \<open>axios.isAxiosError(error)\<close>, from the extracted \<open>message\<close> and
  \<open>error.response?.status\<close>: network substrings first, then the status. The first
  \<open>message.includes(...)\<close> raises a \<open>TypeError\<close> when the message has no such method.
\<close>

definition axios_error_message :: "body_value \<Rightarrow> int option \<Rightarrow> thrown + string" where
  "axios_error_message message st =
     (case value_includes_method message of
        None \<Rightarrow> Inl includes_TypeError
      | Some message_includes \<Rightarrow>
          if message_includes ''ENOTFOUND''
          then Inr ''No internet connection. Please check your network and try again.''
          else if message_includes ''ECONNREFUSED''
          then Inr ''Cannot connect to transcription service. Please check your internet connection.''
          else if message_includes ''ETIMEDOUT'' \<or> message_includes ''ECONNRESET''
          then Inr ''Connection timed out. Please check your internet connection and try again.''
          else if message_includes ''Network Error''
          then Inr ''Network error. Please check your internet connection.''
          else status_message st message)"

text \<open>The rest of the handler, for an error that is no axios error.\<close>

definition network_error_message :: "string \<Rightarrow> string" where
  "network_error_message errorMessage =
     (if includes_str errorMessage ''ENOTFOUND''
      then ''No internet connection. Please check your network and try again.''
      else if includes_str errorMessage ''ECONNREFUSED'' \<or> includes_str errorMessage ''Network Error''
      then ''Cannot connect to transcription service. Please check your internet connection.''
      else if includes_str errorMessage ''ETIMEDOUT'' \<or> includes_str errorMessage ''ECONNRESET''
      then ''Connection timed out. Please check your internet connection and try again.''
      else ''Network error: '' @ errorMessage)"

text \<open>
  \<open>error instanceof Error ? error.message : String(error)\<close>, the message of the branch
  for an error that is no axios error.
\<close>

fun transcribeAudio_errorMessage :: "thrown \<Rightarrow> string" where
  "transcribeAudio_errorMessage (AxiosError msg r) = msg"
| "transcribeAudio_errorMessage (PlainError msg) = msg"
| "transcribeAudio_errorMessage (NonError str) = str"


text \<open>
  The message the handler works on: the extracted \<open>message\<close> of an axios error, and the
  \<open>errorMessage\<close> of any other value (a string).
\<close>

fun extracted_message :: "thrown \<Rightarrow> body_value" where
  "extracted_message (AxiosError msg r) = axios_message msg r"
| "extracted_message (PlainError msg) = StringValue (transcribeAudio_errorMessage (PlainError msg))"
| "extracted_message (NonError str) = StringValue (transcribeAudio_errorMessage (NonError str))"

text \<open>
  Whether \<open>message.includes(sub)\<close> answers true: for a string, whether \<open>sub\<close> occurs in
  it.
\<close>

definition message_contains :: "body_value \<Rightarrow> string \<Rightarrow> bool" where
  "message_contains message sub =
     (case value_includes_method message of
        None \<Rightarrow> False
      | Some message_includes \<Rightarrow> message_includes sub)"

text \<open>
  The whole \<open>catch (error)\<close> block of \<open>transcribeAudio\<close>: \<open>Inr\<close> the outcome it
  returns, or \<open>Inl\<close> the value it throws itself.
\<close>

fun transcribeAudio_catch :: "thrown \<Rightarrow> thrown + transcription_outcome" where
  "transcribeAudio_catch (AxiosError msg r) =
     (case axios_error_message (axios_message msg r) (map_option status r) of
        Inl type_error \<Rightarrow> Inl type_error
      | Inr m \<Rightarrow> Inr (error_outcome m))"
| "transcribeAudio_catch (PlainError msg) =
     Inr (error_outcome (network_error_message (transcribeAudio_errorMessage (PlainError msg))))"
| "transcribeAudio_catch (NonError str) =
     Inr (error_outcome (network_error_message (transcribeAudio_errorMessage (NonError str))))"

text \<open>
  The collaborators of one call. \<open>fetchMe\<close> resolves with the profile (possibly
  undefined) or rejects; the remote \<open>transcribeAudio\<close> resolves with a response whose
  \<open>text\<close> may be undefined, or rejects; the telemetry capture (with its dynamic import)
  returns or throws.
\<close>

record organization =
  active :: bool

record account_info =
  organizations :: "organization list option"

record transcribe_response =
  resp_text :: "string option"

record transcribe_env =
  fetchMe :: "thrown + account_info option"
  account_transcribeAudio :: "string \<Rightarrow> string option \<Rightarrow> thrown + transcribe_response"
  captureVoiceTranscriptionCompleted :: "thrown option"

text \<open>
  The telemetry events a call emits:
  \<open>captureVoiceTranscriptionCompleted(taskId, text length, duration, language, isOrgAccount)\<close>
  with \<open>taskId\<close> and \<open>duration\<close> undefined, and
  \<open>captureVoiceRecordingStarted(taskId, platform)\<close>.
\<close>

datatype telemetry_event =
    VoiceTranscriptionCompleted "nat option" "string option" bool
  | VoiceRecordingStarted "string option" string

text \<open>\<open>!!userInfo?.organizations?.find((org) => org.active)\<close>\<close>

definition isOrgAccount :: "account_info option \<Rightarrow> bool" where
  "isOrgAccount userInfo =
     (case userInfo of None \<Rightarrow> False
      | Some u \<Rightarrow> (case organizations u of None \<Rightarrow> False
                  | Some orgs \<Rightarrow> find active orgs \<noteq> None))"

text \<open>
  \<open>transcribeAudio(audioBase64, language)\<close>: \<open>Inr\<close> the outcome the promise resolves
  with, or \<open>Inl\<close> the value it rejects with, and the telemetry events that were emitted. A rejection of either account call goes to the \<open>catch\<close> block; a failure
  of the telemetry capture is swallowed by the inner \<open>try\<close>. The calls of the logger
  are left out: nothing of the outcome depends on them.
\<close>

definition transcribeAudio ::
  "transcribe_env \<Rightarrow> string \<Rightarrow> string option \<Rightarrow>
     (thrown + transcription_outcome) \<times> telemetry_event list" where
  "transcribeAudio env audioBase64 language =
     (case fetchMe env of
        Inl e \<Rightarrow> (transcribeAudio_catch e, [])
      | Inr userInfo \<Rightarrow>
          (case account_transcribeAudio env audioBase64 language of
             Inl e \<Rightarrow> (transcribeAudio_catch e, [])
           | Inr result \<Rightarrow>
               (Inr \<lparr>out_text = resp_text result, out_error = None\<rparr>,
                (case captureVoiceTranscriptionCompleted env of
                   None \<Rightarrow> [VoiceTranscriptionCompleted (map_option length (resp_text result))
                              language (isOrgAccount userInfo)]
                 | Some e \<Rightarrow> []))))"

text \<open>
  The error that reaches the \<open>catch\<close> block of a call, if any: the rejection of
  \<open>fetchMe\<close>, or else that of the remote \<open>transcribeAudio\<close>.
\<close>

definition caught_error :: "transcribe_env \<Rightarrow> string \<Rightarrow> string option \<Rightarrow> thrown option" where
  "caught_error env audioBase64 language =
     (case fetchMe env of
        Inl e \<Rightarrow> Some e
      | Inr userInfo \<Rightarrow>
          (case account_transcribeAudio env audioBase64 language of
             Inl e \<Rightarrow> Some e
           | Inr result \<Rightarrow> None))"




section \<open>startRecording\<close>

text \<open>
  The cached sign-in state read by \<open>controller.authService.getInfo()\<close>: the controller
  reads \<open>userInfo?.user?.uid\<close>, so the state, its \<open>user\<close> and the \<open>uid\<close> may each be
  absent.
\<close>

record auth_user =
  uid :: "string option"

record auth_info =
  user :: "auth_user option"

definition userInfo_uid :: "auth_info option \<Rightarrow> string option" where
  "userInfo_uid userInfo =
     (case userInfo of None \<Rightarrow> None
      | Some info \<Rightarrow> (case user info of None \<Rightarrow> None | Some u \<Rightarrow> uid u))"

text \<open>What the recorder backend resolves with: \<open>{ success, error? }\<close>.\<close>

record backend_result =
  backend_success :: bool
  backend_error :: "string option"

record recording_result =
  success :: bool
  error :: string

text \<open>
  The collaborators of one \<open>startRecording\<close> call. Each may fail: \<open>getInfo\<close> and the
  telemetry capture by throwing, the recorder backend, \<open>initTask\<close>, \<open>showMessage\<close> and
  \<open>createAuthRequest\<close> by rejecting. \<open>showMessage\<close> resolves with the selected option,
  if any. \<open>taskId\<close> is \<open>controller.task?.taskId\<close> and \<open>platform\<close> is
  \<open>process.platform\<close>.
\<close>

record controller_env =
  taskId :: "string option"
  platform :: string
  getInfo :: "thrown + auth_info option"
  recorder_startRecording :: "thrown + backend_result"
  captureVoiceRecordingStarted :: "thrown option"
  initTask :: "string \<Rightarrow> thrown option"
  showMessage :: "string \<Rightarrow> thrown + string option"
  createAuthRequest :: "thrown option"

text \<open>The collaborator operations a call invokes, in order, with their arguments.\<close>

datatype invocation =
    GetInfo
  | RecorderStartRecording
  | CaptureVoiceRecordingStarted "string option" string
  | InitTask string
  | ShowMessage string "string list"
  | CreateAuthRequest

text \<open>The invocations of \<open>controller.initTask\<close>.\<close>

fun is_InitTask :: "invocation \<Rightarrow> bool" where
  "is_InitTask (InitTask prompt) = True"
| "is_InitTask other = False"

definition ffmpeg_message :: string where
  "ffmpeg_message =
     ''Your system is missing FFmpeg and the installation instructions have been sent to the chat''"

definition sign_in_message :: string where
  "sign_in_message = ''Please sign in to your Cline Account to use Dictation.''"

definition signInAction :: string where
  "signInAction = ''Sign in to Cline''"

text \<open>\<open>result.error ?? ""\<close>\<close>

definition error_or_empty :: "string option \<Rightarrow> string" where
  "error_or_empty e = (case e of None \<Rightarrow> [] | Some s \<Rightarrow> s)"

text \<open>\<open>result.error && result.error.includes("FFmpeg")\<close>\<close>

definition mentions_FFmpeg :: "string option \<Rightarrow> bool" where
  "mentions_FFmpeg e =
     (truthy e \<and> (case e of None \<Rightarrow> False | Some s \<Rightarrow> includes_str s ''FFmpeg''))"

text \<open>
  The \<open>try\<close> block: its result, or the value thrown in it, and the invocations made.
\<close>

definition startRecording_try :: "controller_env \<Rightarrow> (thrown + recording_result) \<times> invocation list" where
  "startRecording_try env =
     (case getInfo env of
        Inl e \<Rightarrow> (Inl e, [GetInfo])
      | Inr userInfo \<Rightarrow>
          if \<not> truthy (userInfo_uid userInfo)
          then (Inl (PlainError sign_in_message), [GetInfo])
          else
            (case recorder_startRecording env of
               Inl e \<Rightarrow> (Inl e, [GetInfo, RecorderStartRecording])
             | Inr result \<Rightarrow>
                 if backend_success result
                 then
                   (case captureVoiceRecordingStarted env of
                      Some e \<Rightarrow>
                        (Inl e, [GetInfo, RecorderStartRecording,
                                 CaptureVoiceRecordingStarted (taskId env) (platform env)])
                    | None \<Rightarrow>
                        (Inr \<lparr>success = backend_success result,
                              error = error_or_empty (backend_error result)\<rparr>,
                         [GetInfo, RecorderStartRecording,
                          CaptureVoiceRecordingStarted (taskId env) (platform env)]))
                 else if mentions_FFmpeg (backend_error result)
                 then
                   (case initTask env (error_or_empty (backend_error result)) of
                      Some e \<Rightarrow>
                        (Inl e, [GetInfo, RecorderStartRecording,
                                 InitTask (error_or_empty (backend_error result))])
                    | None \<Rightarrow>
                        (Inr \<lparr>success = False, error = ffmpeg_message\<rparr>,
                         [GetInfo, RecorderStartRecording,
                          InitTask (error_or_empty (backend_error result))]))
                 else
                   (Inr \<lparr>success = backend_success result,
                         error = error_or_empty (backend_error result)\<rparr>,
                    [GetInfo, RecorderStartRecording])))"

text \<open>\<open>error instanceof Error ? error.message : "Unknown error occurred"\<close>\<close>

fun startRecording_errorMessage :: "thrown \<Rightarrow> string" where
  "startRecording_errorMessage (AxiosError msg r) = msg"
| "startRecording_errorMessage (PlainError msg) = msg"
| "startRecording_errorMessage (NonError str) = ''Unknown error occurred''"

text \<open>
  The \<open>catch\<close> block: the dialog, the sign-in request when the user picks the action,
  and the failure result. A rejection of the dialog or of the sign-in request leaves
  the block as a thrown value.
\<close>

definition startRecording_catch ::
  "controller_env \<Rightarrow> thrown \<Rightarrow> (thrown + recording_result) \<times> invocation list" where
  "startRecording_catch env err =
     (let errorMessage = startRecording_errorMessage err;
          shown = ShowMessage (''Voice recording error: '' @ errorMessage) [signInAction]
      in case showMessage env (''Voice recording error: '' @ errorMessage) of
           Inl e \<Rightarrow> (Inl e, [shown])
         | Inr selectedOption \<Rightarrow>
             if selectedOption = Some signInAction
             then
               (case createAuthRequest env of
                  Some e \<Rightarrow> (Inl e, [shown, CreateAuthRequest])
                | None \<Rightarrow>
                    (Inr \<lparr>success = False, error = errorMessage\<rparr>, [shown, CreateAuthRequest]))
             else (Inr \<lparr>success = False, error = errorMessage\<rparr>, [shown]))"

text \<open>
  \<open>startRecording(controller)\<close>: \<open>Inr\<close> the RecordingResult the promise resolves
  with, or \<open>Inl\<close> the value it rejects with, and every invocation made on the way
  (\<open>console.error\<close> apart).
\<close>

definition startRecording :: "controller_env \<Rightarrow> (thrown + recording_result) \<times> invocation list" where
  "startRecording env =
     (case startRecording_try env of
        (Inr result, calls) \<Rightarrow> (Inr result, calls)
      | (Inl err, calls) \<Rightarrow>
          (case startRecording_catch env err of
             (outcome, later) \<Rightarrow> (outcome, calls @ later)))"

text \<open>
  The handler completes when the dialog resolves and, if the user picked the sign-in
  action, the sign-in request resolves too.
\<close>

definition handler_completes :: "controller_env \<Rightarrow> string \<Rightarrow> bool" where
  "handler_completes env errorMessage =
     (case showMessage env (''Voice recording error: '' @ errorMessage) of
        Inl e \<Rightarrow> False
      | Inr selectedOption \<Rightarrow>
          (if selectedOption = Some signInAction then createAuthRequest env = None else True))"

section \<open>getVoiceTranscriptionService\<close>

text \<open>
  The module variable \<open>_voiceTranscriptionServiceInstance\<close> holds \<open>null\<close> or a reference
  to the service object. Objects are identified by their reference; \<open>new\<close> takes the
  next free one. The constructor calls \<open>ClineAccountService.getInstance()\<close>, which may
  throw; then no object is stored.
\<close>

type_synonym object_ref = nat

record module_state =
  voiceTranscriptionServiceInstance :: "object_ref option"
  next_ref :: object_ref
  constructed :: nat

definition new_VoiceTranscriptionService ::
  "thrown option \<Rightarrow> module_state \<Rightarrow> thrown + (object_ref \<times> module_state)" where
  "new_VoiceTranscriptionService getInstance_throws st =
     (case getInstance_throws of
        Some e \<Rightarrow> Inl e
      | None \<Rightarrow>
          Inr (next_ref st, st\<lparr>next_ref := Suc (next_ref st), constructed := Suc (constructed st)\<rparr>))"

definition getVoiceTranscriptionService ::
  "thrown option \<Rightarrow> module_state \<Rightarrow> (thrown + object_ref) \<times> module_state" where
  "getVoiceTranscriptionService getInstance_throws st =
     (case voiceTranscriptionServiceInstance st of
        None \<Rightarrow>
          (case new_VoiceTranscriptionService getInstance_throws st of
             Inl e \<Rightarrow> (Inl e, st)
           | Inr (r, st') \<Rightarrow> (Inr r, st'\<lparr>voiceTranscriptionServiceInstance := Some r\<rparr>))
      | Some r \<Rightarrow> (Inr r, st))"

text \<open>
  A run of calls, one per list element (what the constructor's collaborator would do at
  that call); between two calls other code may allocate objects, which moves \<open>next_ref\<close>
  by the given amount, but cannot reach the module variable.
\<close>

fun get_calls ::
  "(thrown option \<times> nat) list \<Rightarrow> module_state \<Rightarrow> (thrown + object_ref) list \<times> module_state" where
  "get_calls [] st = ([], st)"
| "get_calls ((c, allocated) # cs) st =
     (case getVoiceTranscriptionService c st of
        (res, st') \<Rightarrow>
          (case get_calls cs (st'\<lparr>next_ref := next_ref st' + allocated\<rparr>) of
             (rest, st'') \<Rightarrow> (res # rest, st'')))"

section \<open>The substring test\<close>

lemma includes_str_sublist: "includes_str s sub \<longleftrightarrow> sublist sub s"
  by (induction s) (auto simp: sublist_Cons_right)

section \<open>Properties of transcribeAudio\<close>

lemma caught_error_Some:
  "caught_error env a l = Some e \<Longrightarrow> transcribeAudio env a l = (transcribeAudio_catch e, [])"
  by (auto simp: caught_error_def transcribeAudio_def split: sum.splits)

lemma caught_error_None:
  "caught_error env a l = None \<Longrightarrow>
   \<exists>u res. fetchMe env = Inr u \<and> account_transcribeAudio env a l = Inr res \<and>
     fst (transcribeAudio env a l) = Inr \<lparr>out_text = resp_text res, out_error = None\<rparr>"
  by (auto simp: caught_error_def transcribeAudio_def split: sum.splits)


lemma message_contains_string: "message_contains (StringValue s) sub = includes_str s sub"
  by (simp add: message_contains_def)

lemma status_message_string: "\<exists>m'. status_message st (StringValue m) = Inr m'"
  by (simp add: status_message_def)

lemma axios_error_message_string: "\<exists>m'. axios_error_message (StringValue m) st = Inr m'"
  using status_message_string [of st m] by (auto simp: axios_error_message_def)

lemma catch_sets_error_only:
  "transcribeAudio_catch e = Inr outcome \<Longrightarrow>
   out_text outcome = None \<and> out_error outcome \<noteq> None"
  by (cases e) (auto simp: error_outcome_def split: sum.splits)

lemma catch_string_returns:
  "extracted_message e = StringValue m \<Longrightarrow> \<exists>outcome. transcribeAudio_catch e = Inr outcome"
proof (cases e)
  case (AxiosError msg r)
  assume "extracted_message e = StringValue m"
  then have "axios_message msg r = StringValue m"
    using AxiosError by simp
  then show ?thesis
    using AxiosError axios_error_message_string [of m "map_option status r"] by auto
qed simp_all






text \<open>
  Claim C3 as stated fails in two ways. When the remote service resolves with an
  undefined \<open>text\<close>, the outcome \<open>{ text: result.text }\<close> has neither field populated. And
  when an axios rejection carries an object as its body \<open>error\<close>, the handler itself
  throws: the call rejects and returns no outcome at all.
\<close>

theorem outcome_neither_field_counterexample:
  "fst (transcribeAudio
      \<lparr>fetchMe = Inr None,
       account_transcribeAudio = (\<lambda>a l. Inr \<lparr>resp_text = None\<rparr>),
       captureVoiceTranscriptionCompleted = None\<rparr> ''QUJD'' None) =
     Inr \<lparr>out_text = None, out_error = None\<rparr> \<and>
   fst (transcribeAudio
      \<lparr>fetchMe = Inr None,
       account_transcribeAudio =
         (\<lambda>a l. Inl (AxiosError ''Request failed with status code 429''
            (Some \<lparr>status = 429,
                   data = Some \<lparr>data_error = Some (OtherValue True None ''[object Object]''),
                                data_message = None\<rparr>\<rparr>))),
       captureVoiceTranscriptionCompleted = None\<rparr> ''QUJD'' None) =
     Inl (PlainError ''message.includes is not a function'')"
  by (simp add: transcribeAudio_def axios_error_message_def axios_message_def or_js_def
      response_data_error_def response_data_message_def includes_TypeError_def)

text \<open>
  Claim C3, amended. Whatever the collaborators do, an outcome that \<open>transcribeAudio\<close>
  returns never has both fields populated: if an account call rejected, \<open>error\<close> is defined
  and \<open>text\<close> is undefined; if both resolved, \<open>error\<close> is undefined and \<open>text\<close> is the
  \<open>text\<close> of the remote response, defined or not. An outcome is returned whenever both
  account calls resolve (a failure of the telemetry capture changes nothing) and whenever
  the extracted message of the caught error is a string.
\<close>

theorem outcome_fields:
  "(\<forall>outcome. fst (transcribeAudio env audioBase64 language) = Inr outcome \<longrightarrow>
      \<not> (out_text outcome \<noteq> None \<and> out_error outcome \<noteq> None) \<and>
      (caught_error env audioBase64 language \<noteq> None \<longrightarrow>
         out_text outcome = None \<and> out_error outcome \<noteq> None) \<and>
      (caught_error env audioBase64 language = None \<longrightarrow>
         out_error outcome = None \<and>
         (\<exists>result. account_transcribeAudio env audioBase64 language = Inr result \<and>
                    out_text outcome = resp_text result))) \<and>
   (caught_error env audioBase64 language = None \<longrightarrow>
      (\<exists>outcome. fst (transcribeAudio env audioBase64 language) = Inr outcome)) \<and>
   (\<forall>e m. caught_error env audioBase64 language = Some e \<and>
          extracted_message e = StringValue m \<longrightarrow>
      (\<exists>outcome. fst (transcribeAudio env audioBase64 language) = Inr outcome))"
proof (cases "caught_error env audioBase64 language")
  case None
  from caught_error_None [OF None] show ?thesis
    using None by auto
next
  case (Some e)
  have t: "fst (transcribeAudio env audioBase64 language) = transcribeAudio_catch e"
    using caught_error_Some [OF Some] by simp
  show ?thesis
    using Some t catch_sets_error_only [of e] catch_string_returns [of e] by auto
qed

text \<open>
  C3 (amended) at a successful call whose telemetry capture throws, and at a call whose
  \<open>fetchMe\<close> rejects with a plain error.
\<close>

theorem outcome_fields_witness:
  "(let env = \<lparr>fetchMe = Inr None,
               account_transcribeAudio = (\<lambda>a l. Inr \<lparr>resp_text = Some ''hello world''\<rparr>),
               captureVoiceTranscriptionCompleted = Some (PlainError ''telemetry unavailable'')\<rparr>;
        env' = \<lparr>fetchMe = Inl (PlainError ''socket hang up''),
                account_transcribeAudio = (\<lambda>a l. Inr \<lparr>resp_text = Some ''hello world''\<rparr>),
                captureVoiceTranscriptionCompleted = None\<rparr>
    in caught_error env ''QUJD'' None = None \<and>
       (\<exists>outcome. fst (transcribeAudio env ''QUJD'' None) = Inr outcome \<and>
          out_error outcome = None \<and> out_text outcome = Some ''hello world'') \<and>
       caught_error env' ''QUJD'' None = Some (PlainError ''socket hang up'') \<and>
       extracted_message (PlainError ''socket hang up'') = StringValue ''socket hang up'' \<and>
       (\<exists>outcome. fst (transcribeAudio env' ''QUJD'' None) = Inr outcome \<and>
          out_text outcome = None \<and> out_error outcome \<noteq> None))"
proof -
  let ?env = "\<lparr>fetchMe = Inr None,
               account_transcribeAudio = (\<lambda>a l. Inr \<lparr>resp_text = Some ''hello world''\<rparr>),
               captureVoiceTranscriptionCompleted = Some (PlainError ''telemetry unavailable'')\<rparr>"
  let ?env' = "\<lparr>fetchMe = Inl (PlainError ''socket hang up''),
                account_transcribeAudio = (\<lambda>a l. Inr \<lparr>resp_text = Some ''hello world''\<rparr>),
                captureVoiceTranscriptionCompleted = None\<rparr>"
  have c: "caught_error ?env ''QUJD'' None = None"
    and c': "caught_error ?env' ''QUJD'' None = Some (PlainError ''socket hang up'')"
    by (simp_all add: caught_error_def)
  have r: "account_transcribeAudio ?env ''QUJD'' None = Inr \<lparr>resp_text = Some ''hello world''\<rparr>"
    by simp
  have m: "extracted_message (PlainError ''socket hang up'') = StringValue ''socket hang up''"
    by simp
  have "\<exists>outcome. fst (transcribeAudio ?env ''QUJD'' None) = Inr outcome \<and>
          out_error outcome = None \<and> out_text outcome = Some ''hello world''"
    using c r outcome_fields [of ?env "''QUJD''" None] by fastforce
  moreover have "\<exists>outcome. fst (transcribeAudio ?env' ''QUJD'' None) = Inr outcome \<and>
          out_text outcome = None \<and> out_error outcome \<noteq> None"
    using c' m outcome_fields [of ?env' "''QUJD''" None] by fastforce
  ultimately show ?thesis
    unfolding Let_def using c c' m by blast
qed




section \<open>Properties of startRecording\<close>

lemma try_Inr:
  "fst (startRecording_try env) = Inr r \<Longrightarrow> startRecording env = startRecording_try env"
  by (cases "startRecording_try env") (auto simp: startRecording_def)

lemma try_Inl:
  "fst (startRecording_try env) = Inl e \<Longrightarrow>
   startRecording env =
     (fst (startRecording_catch env e), snd (startRecording_try env) @ snd (startRecording_catch env e))"
  by (cases "startRecording_try env") (auto simp: startRecording_def split: prod.splits)

lemma catch_completes:
  "handler_completes env (startRecording_errorMessage e) \<Longrightarrow>
   fst (startRecording_catch env e) = Inr \<lparr>success = False, error = startRecording_errorMessage e\<rparr>"
  by (auto simp: handler_completes_def startRecording_catch_def Let_def split: sum.splits option.splits if_splits)

lemma catch_result:
  "fst (startRecording_catch env e) = Inr r \<Longrightarrow>
   r = \<lparr>success = False, error = startRecording_errorMessage e\<rparr>"
  by (auto simp: startRecording_catch_def Let_def split: sum.splits option.splits if_splits)

lemma catch_shows_dialog:
  "ShowMessage (''Voice recording error: '' @ startRecording_errorMessage e) [signInAction]
     \<in> set (snd (startRecording_catch env e))"
  by (auto simp: startRecording_catch_def Let_def split: sum.splits option.splits if_splits)

lemma catch_dialog_rejects:
  "showMessage env (''Voice recording error: '' @ startRecording_errorMessage e) = Inl e' \<Longrightarrow>
   fst (startRecording_catch env e) = Inl e'"
  by (simp add: startRecording_catch_def Let_def)

lemma try_success:
  "fst (startRecording_try env) = Inr r \<Longrightarrow> success r \<Longrightarrow>
   \<exists>result. recorder_startRecording env = Inr result \<and> backend_success result \<and>
     error r = error_or_empty (backend_error result)"
  by (auto simp: startRecording_try_def split: sum.splits if_splits option.splits)

lemma catch_invocations:
  "set (snd (startRecording_catch env e)) \<subseteq>
     {ShowMessage (''Voice recording error: '' @ startRecording_errorMessage e) [signInAction],
      CreateAuthRequest}"
  by (auto simp: startRecording_catch_def Let_def split: sum.splits option.splits if_splits)

lemma try_not_signed_in:
  "getInfo env = Inr userInfo \<Longrightarrow> \<not> truthy (userInfo_uid userInfo) \<Longrightarrow>
   startRecording_try env = (Inl (PlainError sign_in_message), [GetInfo])"
  by (simp add: startRecording_try_def)

lemma try_ffmpeg:
  assumes "getInfo env = Inr userInfo" and "truthy (userInfo_uid userInfo)"
    and "recorder_startRecording env = Inr result" and "\<not> backend_success result"
    and "backend_error result = Some raw" and "includes_str raw ''FFmpeg''"
  shows "startRecording_try env =
           ((case initTask env raw of Some e \<Rightarrow> Inl e
             | None \<Rightarrow> Inr \<lparr>success = False, error = ffmpeg_message\<rparr>),
            [GetInfo, RecorderStartRecording, InitTask raw])"
proof -
  have "raw \<noteq> []" using assms(6) by auto
  then show ?thesis
    using assms
    by (simp add: startRecording_try_def mentions_FFmpeg_def error_or_empty_def split: option.splits)
qed

text \<open>
  Claim C4, evaluated where it fails. The user is signed in and the backend resolves with
  \<open>success = true\<close>. When the telemetry capture throws, the exception reaches the outer
  handler: the dialog is shown and the result is a failure carrying the exception's
  message. When the capture returns, the result is the backend's success. The sibling
  \<open>transcribeAudio\<close> wraps its telemetry capture in a \<open>try\<close> of its own;
  \<open>startRecording\<close> does not.
\<close>

theorem telemetry_failure_changes_result:
  "(let env = \<lparr>taskId = Some ''task-1'', platform = ''linux'',
               getInfo = Inr (Some \<lparr>user = Some \<lparr>uid = Some ''user-1''\<rparr>\<rparr>),
               recorder_startRecording = Inr \<lparr>backend_success = True, backend_error = None\<rparr>,
               captureVoiceRecordingStarted = Some (PlainError ''telemetry unavailable''),
               initTask = (\<lambda>prompt. None),
               showMessage = (\<lambda>message. Inr None),
               createAuthRequest = None\<rparr>
    in startRecording env =
         (Inr \<lparr>success = False, error = ''telemetry unavailable''\<rparr>,
          [GetInfo, RecorderStartRecording, CaptureVoiceRecordingStarted (Some ''task-1'') ''linux'',
           ShowMessage ''Voice recording error: telemetry unavailable'' [''Sign in to Cline'']]) \<and>
       startRecording (env\<lparr>captureVoiceRecordingStarted := None\<rparr>) =
         (Inr \<lparr>success = True, error = ''''\<rparr>,
          [GetInfo, RecorderStartRecording, CaptureVoiceRecordingStarted (Some ''task-1'') ''linux'']))"
  by (simp add: Let_def startRecording_def startRecording_try_def startRecording_catch_def
      userInfo_uid_def error_or_empty_def signInAction_def)

text \<open>
  Claim C5 as stated fails: the handler awaits the dialog and the sign-in request outside
  any \<open>try\<close>. Here nobody is signed in, the user picks the sign-in action and the
  sign-in request rejects: \<open>startRecording\<close> rejects with that value and returns no
  RecordingResult.
\<close>

theorem not_signed_in_rejects_counterexample:
  "(let env = \<lparr>taskId = None, platform = ''linux'',
               getInfo = Inr None,
               recorder_startRecording = Inr \<lparr>backend_success = True, backend_error = None\<rparr>,
               captureVoiceRecordingStarted = None,
               initTask = (\<lambda>prompt. None),
               showMessage = (\<lambda>message. Inr (Some ''Sign in to Cline'')),
               createAuthRequest = Some (PlainError ''browser could not be opened'')\<rparr>
    in userInfo_uid None = None \<and>
       startRecording env =
         (Inl (PlainError ''browser could not be opened''),
          [GetInfo,
           ShowMessage
             ''Voice recording error: Please sign in to your Cline Account to use Dictation.''
             [''Sign in to Cline''],
           CreateAuthRequest]))"
  by (simp add: Let_def startRecording_def startRecording_try_def startRecording_catch_def
      userInfo_uid_def signInAction_def sign_in_message_def)

text \<open>
  Claim C5, amended. When the cached sign-in state has no subject identifier (the state,
  its user or the uid is absent, or the uid is empty), the recorder backend is not
  invoked; when the handler's dialog and, if the user picks the action, the sign-in
  request resolve, the call returns the failure with the sign-in message, and it never
  returns any other RecordingResult.
\<close>

theorem not_signed_in:
  assumes "getInfo env = Inr userInfo"
    and "\<not> truthy (userInfo_uid userInfo)"
  shows "RecorderStartRecording \<notin> set (snd (startRecording env)) \<and>
         (\<forall>r. fst (startRecording env) = Inr r \<longrightarrow>
              r = \<lparr>success = False, error = sign_in_message\<rparr>) \<and>
         (handler_completes env sign_in_message \<longrightarrow>
            fst (startRecording env) = Inr \<lparr>success = False, error = sign_in_message\<rparr>)"
proof -
  let ?thrown = "PlainError sign_in_message"
  have t: "startRecording_try env = (Inl ?thrown, [GetInfo])"
    using assms by (rule try_not_signed_in)
  then have s: "startRecording env =
      (fst (startRecording_catch env ?thrown), [GetInfo] @ snd (startRecording_catch env ?thrown))"
    using try_Inl [of env ?thrown] by simp
  have "RecorderStartRecording \<notin> set (snd (startRecording env))"
    using s catch_invocations [of env ?thrown] by auto
  moreover have "\<forall>r. fst (startRecording env) = Inr r \<longrightarrow>
      r = \<lparr>success = False, error = sign_in_message\<rparr>"
    using s catch_result [of env ?thrown] by simp
  moreover have "handler_completes env sign_in_message \<longrightarrow>
      fst (startRecording env) = Inr \<lparr>success = False, error = sign_in_message\<rparr>"
    using s catch_completes [of env ?thrown] by simp
  ultimately show ?thesis by blast
qed

text \<open>
  C5 (amended) at a sign-in state without a user, where the user picks the sign-in action
  and the sign-in request resolves.
\<close>

theorem not_signed_in_witness:
  "(let env = \<lparr>taskId = None, platform = ''linux'',
               getInfo = Inr (Some \<lparr>user = None\<rparr>),
               recorder_startRecording = Inr \<lparr>backend_success = True, backend_error = None\<rparr>,
               captureVoiceRecordingStarted = None,
               initTask = (\<lambda>prompt. None),
               showMessage = (\<lambda>message. Inr (Some ''Sign in to Cline'')),
               createAuthRequest = None\<rparr>
    in getInfo env = Inr (Some \<lparr>user = None\<rparr>) \<and>
       \<not> truthy (userInfo_uid (Some \<lparr>user = None\<rparr>)) \<and>
       handler_completes env sign_in_message \<and>
       RecorderStartRecording \<notin> set (snd (startRecording env)) \<and>
       fst (startRecording env) =
         Inr \<lparr>success = False, error = ''Please sign in to your Cline Account to use Dictation.''\<rparr>)"
proof -
  let ?env = "\<lparr>taskId = None, platform = ''linux'',
               getInfo = Inr (Some \<lparr>user = None\<rparr>),
               recorder_startRecording = Inr \<lparr>backend_success = True, backend_error = None\<rparr>,
               captureVoiceRecordingStarted = None,
               initTask = (\<lambda>prompt. None),
               showMessage = (\<lambda>message. Inr (Some ''Sign in to Cline'')),
               createAuthRequest = None\<rparr>"
  have g: "getInfo ?env = Inr (Some \<lparr>user = None\<rparr>)"
    by simp
  have u: "\<not> truthy (userInfo_uid (Some \<lparr>user = None\<rparr>))"
    by (simp add: userInfo_uid_def)
  have h: "handler_completes ?env sign_in_message"
    by (simp add: handler_completes_def signInAction_def)
  have m: "sign_in_message = ''Please sign in to your Cline Account to use Dictation.''"
    by (simp add: sign_in_message_def)
  show ?thesis
    unfolding Let_def
    using g u h not_signed_in [OF g u] unfolding m by blast
qed

text \<open>
  Claim C6 as stated fails in two ways. When \<open>initTask\<close> rejects, the rejection reaches
  the outer handler and the returned error is its message, not the dependency-specific
  one. And the dependency-specific message is a fixed sentence that itself contains
  \<open>FFmpeg\<close>: a backend whose error text is that sentence gets its own text back.
\<close>

theorem ffmpeg_counterexample:
  "(let signed_in = Inr (Some \<lparr>user = Some \<lparr>uid = Some ''user-1''\<rparr>\<rparr>);
        env = \<lparr>taskId = None, platform = ''linux'', getInfo = signed_in,
               recorder_startRecording =
                 Inr \<lparr>backend_success = False, backend_error = Some ''FFmpeg not found in PATH''\<rparr>,
               captureVoiceRecordingStarted = None,
               initTask = (\<lambda>prompt. Some (PlainError ''Task could not be created'')),
               showMessage = (\<lambda>message. Inr None),
               createAuthRequest = None\<rparr>;
        env' = \<lparr>taskId = None, platform = ''linux'', getInfo = signed_in,
                recorder_startRecording =
                  Inr \<lparr>backend_success = False, backend_error = Some ffmpeg_message\<rparr>,
                captureVoiceRecordingStarted = None,
                initTask = (\<lambda>prompt. None),
                showMessage = (\<lambda>message. Inr None),
                createAuthRequest = None\<rparr>
    in fst (startRecording env) = Inr \<lparr>success = False, error = ''Task could not be created''\<rparr> \<and>
       ''Task could not be created'' \<noteq> ffmpeg_message \<and>
       includes_str ffmpeg_message ''FFmpeg'' \<and>
       fst (startRecording env') = Inr \<lparr>success = False, error = ffmpeg_message\<rparr>)"
  by (simp add: Let_def startRecording_def startRecording_try_def startRecording_catch_def
      userInfo_uid_def error_or_empty_def signInAction_def mentions_FFmpeg_def ffmpeg_message_def)

text \<open>
  Claim C6, amended. For a signed-in user, when the backend resolves with
  \<open>success = false\<close> and an error text containing \<open>FFmpeg\<close>, \<open>initTask\<close> is invoked
  exactly once, with the backend's error text; when that invocation resolves, the result
  is the failure with the fixed dependency-specific message, whatever the backend's text.
\<close>

theorem ffmpeg_assistance_task:
  assumes "getInfo env = Inr userInfo" and "truthy (userInfo_uid userInfo)"
    and "recorder_startRecording env = Inr result" and "\<not> backend_success result"
    and "backend_error result = Some raw" and "includes_str raw ''FFmpeg''"
  shows "filter is_InitTask (snd (startRecording env)) = [InitTask raw] \<and>
         (initTask env raw = None \<longrightarrow>
            fst (startRecording env) = Inr \<lparr>success = False, error = ffmpeg_message\<rparr>)"
proof (cases "initTask env raw")
  case None
  then have "startRecording_try env =
      (Inr \<lparr>success = False, error = ffmpeg_message\<rparr>, [GetInfo, RecorderStartRecording, InitTask raw])"
    using try_ffmpeg [OF assms] by simp
  then have "startRecording env =
      (Inr \<lparr>success = False, error = ffmpeg_message\<rparr>, [GetInfo, RecorderStartRecording, InitTask raw])"
    using try_Inr [of env] by simp
  then show ?thesis using None by simp
next
  case (Some e)
  then have t: "startRecording_try env = (Inl e, [GetInfo, RecorderStartRecording, InitTask raw])"
    using try_ffmpeg [OF assms] by simp
  then have s: "snd (startRecording env) =
      [GetInfo, RecorderStartRecording, InitTask raw] @ snd (startRecording_catch env e)"
    using try_Inl [of env e] by simp
  have "filter is_InitTask (snd (startRecording_catch env e)) = []"
    using catch_invocations [of env e] by (auto simp: filter_empty_conv)
  then show ?thesis using s Some by simp
qed

text \<open>
  C6 (amended) at a backend that reports \<open>FFmpeg not found in PATH\<close>.
\<close>

theorem ffmpeg_assistance_task_witness:
  "(let userInfo = Some \<lparr>user = Some \<lparr>uid = Some ''user-1''\<rparr>\<rparr>;
        result = \<lparr>backend_success = False, backend_error = Some ''FFmpeg not found in PATH''\<rparr>;
        env = \<lparr>taskId = None, platform = ''win32'', getInfo = Inr userInfo,
               recorder_startRecording = Inr result,
               captureVoiceRecordingStarted = None,
               initTask = (\<lambda>prompt. None),
               showMessage = (\<lambda>message. Inr None),
               createAuthRequest = None\<rparr>
    in getInfo env = Inr userInfo \<and> truthy (userInfo_uid userInfo) \<and>
       recorder_startRecording env = Inr result \<and> \<not> backend_success result \<and>
       backend_error result = Some ''FFmpeg not found in PATH'' \<and>
       includes_str ''FFmpeg not found in PATH'' ''FFmpeg'' \<and>
       initTask env ''FFmpeg not found in PATH'' = None \<and>
       filter is_InitTask (snd (startRecording env)) = [InitTask ''FFmpeg not found in PATH''] \<and>
       fst (startRecording env) =
         Inr \<lparr>success = False,
              error = ''Your system is missing FFmpeg and the installation instructions have been sent to the chat''\<rparr>)"
proof -
  let ?userInfo = "Some \<lparr>user = Some \<lparr>uid = Some ''user-1''\<rparr>\<rparr>"
  let ?result = "\<lparr>backend_success = False, backend_error = Some ''FFmpeg not found in PATH''\<rparr>"
  let ?env = "\<lparr>taskId = None, platform = ''win32'', getInfo = Inr ?userInfo,
               recorder_startRecording = Inr ?result,
               captureVoiceRecordingStarted = None,
               initTask = (\<lambda>prompt. None),
               showMessage = (\<lambda>message. Inr None),
               createAuthRequest = None\<rparr>"
  have g: "getInfo ?env = Inr ?userInfo"
    by simp
  have u: "truthy (userInfo_uid ?userInfo)"
    by (simp add: userInfo_uid_def)
  have b: "recorder_startRecording ?env = Inr ?result"
    by simp
  have f: "\<not> backend_success ?result"
    by simp
  have e: "backend_error ?result = Some ''FFmpeg not found in PATH''"
    by simp
  have i: "includes_str ''FFmpeg not found in PATH'' ''FFmpeg''"
    by simp
  have t: "initTask ?env ''FFmpeg not found in PATH'' = None"
    by simp
  show ?thesis
    unfolding Let_def
    using g u b f e i t ffmpeg_assistance_task [OF g u b f e i]
    by (simp add: ffmpeg_message_def)
qed

text \<open>
  Claim C8 as stated fails: a backend that resolves with \<open>success = true\<close> together with
  an error text gets both passed through.
\<close>

theorem success_with_error_counterexample:
  "(let env = \<lparr>taskId = None, platform = ''linux'',
               getInfo = Inr (Some \<lparr>user = Some \<lparr>uid = Some ''user-1''\<rparr>\<rparr>),
               recorder_startRecording =
                 Inr \<lparr>backend_success = True, backend_error = Some ''Already recording''\<rparr>,
               captureVoiceRecordingStarted = None,
               initTask = (\<lambda>prompt. None),
               showMessage = (\<lambda>message. Inr None),
               createAuthRequest = None\<rparr>
    in fst (startRecording env) = Inr \<lparr>success = True, error = ''Already recording''\<rparr>)"
  by (simp add: Let_def startRecording_def startRecording_try_def userInfo_uid_def error_or_empty_def)

text \<open>
  Claim C8, amended. Whenever the returned RecordingResult has \<open>success = true\<close>, the
  backend resolved with \<open>success = true\<close> and the returned error string is the backend's
  error text, or empty when the backend gave none; so it is empty exactly when the
  backend's error text is absent or empty.
\<close>

theorem success_error_is_backend_error:
  assumes "fst (startRecording env) = Inr r" and "success r"
  shows "\<exists>result. recorder_startRecording env = Inr result \<and> backend_success result \<and>
           error r = error_or_empty (backend_error result) \<and>
           (error r = [] \<longleftrightarrow> backend_error result = None \<or> backend_error result = Some [])"
proof (cases "fst (startRecording_try env)")
  case (Inl e)
  then have "fst (startRecording env) = fst (startRecording_catch env e)"
    using try_Inl [of env e] by simp
  then have "r = \<lparr>success = False, error = startRecording_errorMessage e\<rparr>"
    using assms(1) catch_result [of env e r] by simp
  then show ?thesis using assms(2) by simp
next
  case (Inr r')
  then have "fst (startRecording_try env) = Inr r"
    using try_Inr [of env r'] assms(1) by simp
  then obtain result where res: "recorder_startRecording env = Inr result" "backend_success result"
      "error r = error_or_empty (backend_error result)"
    using try_success assms(2) by blast
  then show ?thesis
    by (auto simp: error_or_empty_def split: option.splits)
qed

text \<open>
  C8 (amended) at a backend that resolves with \<open>success = true\<close> and no error text.
\<close>

theorem success_error_is_backend_error_witness:
  "(let env = \<lparr>taskId = None, platform = ''darwin'',
               getInfo = Inr (Some \<lparr>user = Some \<lparr>uid = Some ''user-1''\<rparr>\<rparr>),
               recorder_startRecording = Inr \<lparr>backend_success = True, backend_error = None\<rparr>,
               captureVoiceRecordingStarted = None,
               initTask = (\<lambda>prompt. None),
               showMessage = (\<lambda>message. Inr None),
               createAuthRequest = None\<rparr>;
        r = \<lparr>success = True, error = ''''\<rparr>
    in fst (startRecording env) = Inr r \<and> success r \<and>
       (\<exists>result. recorder_startRecording env = Inr result \<and> backend_success result \<and>
           error r = error_or_empty (backend_error result) \<and>
           (error r = [] \<longleftrightarrow> backend_error result = None \<or> backend_error result = Some [])))"
proof -
  let ?env = "\<lparr>taskId = None, platform = ''darwin'',
               getInfo = Inr (Some \<lparr>user = Some \<lparr>uid = Some ''user-1''\<rparr>\<rparr>),
               recorder_startRecording = Inr \<lparr>backend_success = True, backend_error = None\<rparr>,
               captureVoiceRecordingStarted = None,
               initTask = (\<lambda>prompt. None),
               showMessage = (\<lambda>message. Inr None),
               createAuthRequest = None\<rparr>"
  let ?r = "\<lparr>success = True, error = ''''\<rparr>"
  have f: "fst (startRecording ?env) = Inr ?r"
    by (simp add: startRecording_def startRecording_try_def userInfo_uid_def error_or_empty_def)
  have s: "success ?r"
    by simp
  show ?thesis
    unfolding Let_def
    using f s success_error_is_backend_error [OF f s] by blast
qed

text \<open>
  Claim C9 as stated fails in two ways. A thrown value that is no \<open>Error\<close> instance
  (here the backend rejects with the string \<open>microphone busy\<close>) is reported as
  \<open>Unknown error occurred\<close>, not by its own text. And the handler awaits the dialog
  outside any \<open>try\<close>: when the dialog rejects, \<open>startRecording\<close> rejects with that
  value.
\<close>

theorem exception_message_counterexample:
  "(let signed_in = Inr (Some \<lparr>user = Some \<lparr>uid = Some ''user-1''\<rparr>\<rparr>);
        env = \<lparr>taskId = None, platform = ''linux'', getInfo = signed_in,
               recorder_startRecording = Inl (NonError ''microphone busy''),
               captureVoiceRecordingStarted = None,
               initTask = (\<lambda>prompt. None),
               showMessage = (\<lambda>message. Inr None),
               createAuthRequest = None\<rparr>;
        env' = \<lparr>taskId = None, platform = ''linux'', getInfo = signed_in,
                recorder_startRecording = Inl (PlainError ''microphone busy''),
                captureVoiceRecordingStarted = None,
                initTask = (\<lambda>prompt. None),
                showMessage = (\<lambda>message. Inl (PlainError ''host bridge closed'')),
                createAuthRequest = None\<rparr>
    in fst (startRecording env) = Inr \<lparr>success = False, error = ''Unknown error occurred''\<rparr> \<and>
       fst (startRecording env') = Inl (PlainError ''host bridge closed''))"
  by (simp add: Let_def startRecording_def startRecording_try_def startRecording_catch_def
      userInfo_uid_def signInAction_def)

text \<open>
  Claim C9, amended. For every value thrown in the \<open>try\<close> block (by the auth check, the
  recorder backend, the telemetry capture or \<open>initTask\<close>), the sign-in dialog is shown
  with the error message: the thrown value's \<open>message\<close> when it is an \<open>Error\<close> instance,
  \<open>Unknown error occurred\<close> otherwise. When the dialog and, if the user picks the
  action, the sign-in request resolve, the call returns the failure with that message,
  whatever the user chose.
\<close>

theorem exception_handled:
  assumes "fst (startRecording_try env) = Inl e"
  shows "ShowMessage (''Voice recording error: '' @ startRecording_errorMessage e) [signInAction]
           \<in> set (snd (startRecording env)) \<and>
         startRecording_errorMessage e =
           (case e of AxiosError msg r \<Rightarrow> msg | PlainError msg \<Rightarrow> msg
            | NonError str \<Rightarrow> ''Unknown error occurred'') \<and>
         (handler_completes env (startRecording_errorMessage e) \<longrightarrow>
            fst (startRecording env) =
              Inr \<lparr>success = False, error = startRecording_errorMessage e\<rparr>)"
proof -
  have s: "startRecording env =
      (fst (startRecording_catch env e), snd (startRecording_try env) @ snd (startRecording_catch env e))"
    using assms by (rule try_Inl)
  have "ShowMessage (''Voice recording error: '' @ startRecording_errorMessage e) [signInAction]
           \<in> set (snd (startRecording env))"
    using s catch_shows_dialog [of e env] by simp
  moreover have "startRecording_errorMessage e =
           (case e of AxiosError msg r \<Rightarrow> msg | PlainError msg \<Rightarrow> msg
            | NonError str \<Rightarrow> ''Unknown error occurred'')"
    by (cases e) simp_all
  moreover have "handler_completes env (startRecording_errorMessage e) \<longrightarrow>
            fst (startRecording env) =
              Inr \<lparr>success = False, error = startRecording_errorMessage e\<rparr>"
    using s catch_completes [of env e] by simp
  ultimately show ?thesis by blast
qed

text \<open>
  C9 (amended) at an auth check that throws, where the user picks the sign-in action.
\<close>

theorem exception_handled_witness:
  "(let env = \<lparr>taskId = None, platform = ''linux'',
               getInfo = Inl (PlainError ''auth state unavailable''),
               recorder_startRecording = Inr \<lparr>backend_success = True, backend_error = None\<rparr>,
               captureVoiceRecordingStarted = None,
               initTask = (\<lambda>prompt. None),
               showMessage = (\<lambda>message. Inr (Some ''Sign in to Cline'')),
               createAuthRequest = None\<rparr>;
        e = PlainError ''auth state unavailable''
    in fst (startRecording_try env) = Inl e \<and>
       handler_completes env (startRecording_errorMessage e) \<and>
       ShowMessage ''Voice recording error: auth state unavailable'' [''Sign in to Cline'']
         \<in> set (snd (startRecording env)) \<and>
       fst (startRecording env) = Inr \<lparr>success = False, error = ''auth state unavailable''\<rparr>)"
proof -
  let ?env = "\<lparr>taskId = None, platform = ''linux'',
               getInfo = Inl (PlainError ''auth state unavailable''),
               recorder_startRecording = Inr \<lparr>backend_success = True, backend_error = None\<rparr>,
               captureVoiceRecordingStarted = None,
               initTask = (\<lambda>prompt. None),
               showMessage = (\<lambda>message. Inr (Some ''Sign in to Cline'')),
               createAuthRequest = None\<rparr>"
  let ?e = "PlainError ''auth state unavailable''"
  have t: "fst (startRecording_try ?env) = Inl ?e"
    by (simp add: startRecording_try_def)
  have h: "handler_completes ?env (startRecording_errorMessage ?e)"
    by (simp add: handler_completes_def signInAction_def)
  show ?thesis
    unfolding Let_def
    using t h exception_handled [OF t] by (simp add: signInAction_def)
qed

section \<open>Properties of getVoiceTranscriptionService\<close>

lemma get_calls_stored:
  "voiceTranscriptionServiceInstance st = Some r \<Longrightarrow>
   fst (get_calls cs st) = replicate (length cs) (Inr r) \<and>
   voiceTranscriptionServiceInstance (snd (get_calls cs st)) = Some r \<and>
   constructed (snd (get_calls cs st)) = constructed st"
proof (induction cs arbitrary: st)
  case Nil
  then show ?case by simp
next
  case (Cons c cs)
  obtain t k where c: "c = (t, k)" by (cases c)
  have g: "getVoiceTranscriptionService t st = (Inr r, st)"
    using Cons.prems by (simp add: getVoiceTranscriptionService_def)
  have "voiceTranscriptionServiceInstance (st\<lparr>next_ref := next_ref st + k\<rparr>) = Some r"
    using Cons.prems by simp
  from Cons.IH [OF this] show ?case
    using c g by (auto split: prod.splits)
qed

lemma get_stores:
  "getVoiceTranscriptionService c st = (Inr r, st') \<Longrightarrow>
   voiceTranscriptionServiceInstance st' = Some r \<and> constructed st' \<le> Suc (constructed st)"
  by (auto simp: getVoiceTranscriptionService_def new_VoiceTranscriptionService_def
      split: option.splits sum.splits prod.splits)

text \<open>
  Claim C10. Once a call has returned an object, every later call returns that same
  object and constructs nothing, whatever is allocated in between and whatever the
  constructor would do; the call that returned it constructed at most one object.
\<close>

theorem singleton_instance:
  assumes "getVoiceTranscriptionService c st = (Inr r, st')"
  shows "fst (get_calls cs (st'\<lparr>next_ref := next_ref st' + allocated\<rparr>)) =
           replicate (length cs) (Inr r) \<and>
         constructed (snd (get_calls cs (st'\<lparr>next_ref := next_ref st' + allocated\<rparr>))) =
           constructed st' \<and>
         constructed st' \<le> Suc (constructed st)"
proof -
  have "voiceTranscriptionServiceInstance (st'\<lparr>next_ref := next_ref st' + allocated\<rparr>) = Some r"
    using get_stores [OF assms] by simp
  from get_calls_stored [OF this, of cs] show ?thesis
    using get_stores [OF assms] by simp
qed

text \<open>
  C10 at a fresh module: the first call constructs object 7, and three later calls
  return it.
\<close>

theorem singleton_instance_witness:
  "(let st = \<lparr>voiceTranscriptionServiceInstance = None, next_ref = 7, constructed = 0\<rparr>;
        st' = \<lparr>voiceTranscriptionServiceInstance = Some 7, next_ref = 8, constructed = 1\<rparr>;
        cs = [(None, 3), (Some (PlainError ''account service unavailable''), 0), (None, 1)]
    in getVoiceTranscriptionService None st = (Inr 7, st') \<and>
       fst (get_calls cs (st'\<lparr>next_ref := next_ref st' + 2\<rparr>)) = [Inr 7, Inr 7, Inr 7] \<and>
       constructed (snd (get_calls cs (st'\<lparr>next_ref := next_ref st' + 2\<rparr>))) = 1)"
proof -
  let ?st = "\<lparr>voiceTranscriptionServiceInstance = None, next_ref = 7, constructed = 0\<rparr>"
  let ?st' = "\<lparr>voiceTranscriptionServiceInstance = Some 7, next_ref = 8, constructed = 1\<rparr>"
  let ?cs = "[(None, 3), (Some (PlainError ''account service unavailable''), 0), (None, 1)]"
  have g: "getVoiceTranscriptionService None ?st = (Inr 7, ?st')"
    by (simp add: getVoiceTranscriptionService_def new_VoiceTranscriptionService_def)
  have r: "replicate (length ?cs) (Inr (7::nat) :: thrown + nat) = [Inr 7, Inr 7, Inr 7]"
    by (simp add: numeral_3_eq_3)
  show ?thesis
    unfolding Let_def
    using g singleton_instance [OF g, of ?cs 2] unfolding r by simp
qed

end
